theory Spec2Isabelle
  imports Main
begin

section \<open>Input validation for series-as-features data\<close>

text \<open>
  A shallow embedding of \<^verbatim>\<open>sktime/utils/validation/series_as_features.py\<close>:
  the three public checks \<^verbatim>\<open>check_X\<close>, \<^verbatim>\<open>check_y\<close>, \<^verbatim>\<open>check_X_y\<close> and the private
  helper \<^verbatim>\<open>_enforce_min_instances\<close>. Every \<^verbatim>\<open>raise\<close> of the source, and every
  tuple read that Python may refuse, is a branch that returns \<open>Inl\<close>.
\<close>

subsection \<open>Python values\<close>

text \<open>
  A cell of a \<^verbatim>\<open>pd.DataFrame\<close> holds either a scalar or an embedded sequence
  (a \<^verbatim>\<open>pd.Series\<close> or \<^verbatim>\<open>np.array\<close>) of values.
\<close>

datatype 'a cell = Scalar 'a | Nested "'a list"

text \<open>
  The objects the checks may receive. \<open>NDArray shape data\<close> is a \<^verbatim>\<open>np.ndarray\<close>
  with its shape tuple and its entries in row-major order; \<open>DataFrame c rows\<close> is a
  \<^verbatim>\<open>pd.DataFrame\<close> with \<open>c\<close> columns, given row by row; \<open>Series vs\<close> is a
  \<^verbatim>\<open>pd.Series\<close>; \<open>PyList vs\<close> is a built-in list of scalars; \<open>PyOther name\<close> is any
  other object, of the class \<open>name\<close>, that has neither a shape nor a length.
\<close>

datatype 'a pyobj =
    NDArray "nat list" "'a list"
  | DataFrame nat "'a cell list list"
  | Series "'a list"
  | PyList "'a list"
  | PyOther string

fun is_ndarray :: "'a pyobj \<Rightarrow> bool" where
  "is_ndarray (NDArray s d) = True"
| "is_ndarray x = False"

fun is_DataFrame :: "'a pyobj \<Rightarrow> bool" where
  "is_DataFrame (DataFrame c rows) = True"
| "is_DataFrame x = False"

fun is_Series :: "'a pyobj \<Rightarrow> bool" where
  "is_Series (Series vs) = True"
| "is_Series x = False"

text \<open>\<^verbatim>\<open>hasattr(x, "shape")\<close> and \<^verbatim>\<open>x.shape\<close>, for the objects that have one.\<close>

fun hasattr_shape :: "'a pyobj \<Rightarrow> bool" where
  "hasattr_shape (NDArray s d) = True"
| "hasattr_shape (DataFrame c rows) = True"
| "hasattr_shape (Series vs) = True"
| "hasattr_shape x = False"

fun shape :: "'a pyobj \<Rightarrow> nat list" where
  "shape (NDArray s d) = s"
| "shape (DataFrame c rows) = [length rows, c]"
| "shape (Series vs) = [length vs]"
| "shape (PyList vs) = []"
| "shape (PyOther name) = []"

definition ndim :: "'a pyobj \<Rightarrow> nat" where
  "ndim x = length (shape x)"

text \<open>
  The shape of \<^verbatim>\<open>np.asarray(x)\<close>: a list of scalars becomes a one-dimensional array,
  any other object a zero-dimensional one.
\<close>

fun asarray_shape :: "'a pyobj \<Rightarrow> nat list" where
  "asarray_shape (PyList vs) = [length vs]"
| "asarray_shape (PyOther name) = []"
| "asarray_shape x = shape x"

text \<open>\<^verbatim>\<open>y.to_numpy()\<close> of a \<^verbatim>\<open>pd.Series\<close>: the same values as a one-dimensional array.\<close>

fun to_numpy :: "'a pyobj \<Rightarrow> 'a pyobj" where
  "to_numpy (Series vs) = NDArray [length vs] vs"
| "to_numpy x = x"

subsection \<open>Text of the messages\<close>

definition digit_char :: "nat \<Rightarrow> char" where
  "digit_char d = ''0123456789'' ! (d mod 10)"

fun show_nat :: "nat \<Rightarrow> string" where
  "show_nat n = (if n < 10 then [digit_char n]
                 else show_nat (n div 10) @ [digit_char (n mod 10)])"

declare show_nat.simps [simp del]

definition show_int :: "int \<Rightarrow> string" where
  "show_int i = (if i < 0 then ''-'' @ show_nat (nat (- i)) else show_nat (nat i))"

text \<open>Python's \<^verbatim>\<open>repr\<close> of a tuple and of a list of integers.\<close>

fun comma_sep :: "nat list \<Rightarrow> string" where
  "comma_sep [] = []"
| "comma_sep [n] = show_nat n"
| "comma_sep (n # ns) = show_nat n @ '', '' @ comma_sep ns"

fun show_tuple :: "nat list \<Rightarrow> string" where
  "show_tuple [n] = ''('' @ show_nat n @ '',)''"
| "show_tuple ns = ''('' @ comma_sep ns @ '')''"

definition show_list :: "nat list \<Rightarrow> string" where
  "show_list ns = ''['' @ comma_sep ns @ '']''"

definition quoted :: "string \<Rightarrow> string" where
  "quoted s = [CHR 0x27] @ s @ [CHR 0x27]"

text \<open>\<^verbatim>\<open>type(x)\<close> as an f-string prints it.\<close>

fun type_repr :: "'a pyobj \<Rightarrow> string" where
  "type_repr (NDArray s d) = ''<class '' @ quoted ''numpy.ndarray'' @ ''>''"
| "type_repr (DataFrame c rows) = ''<class '' @ quoted ''pandas.core.frame.DataFrame'' @ ''>''"
| "type_repr (Series vs) = ''<class '' @ quoted ''pandas.core.series.Series'' @ ''>''"
| "type_repr (PyList vs) = ''<class '' @ quoted ''list'' @ ''>''"
| "type_repr (PyOther name) = ''<class '' @ quoted name @ ''>''"

subsection \<open>Exceptions\<close>

text \<open>
  One constructor for each place where the module can raise, carrying the values the
  message is formatted with. \<open>Tuple_index_error\<close> is Python's answer to \<^verbatim>\<open>shape[i]\<close> on a
  tuple that is too short, \<open>Unpack_error\<close> its answer to unpacking fewer than two values
  into \<^verbatim>\<open>n_instances, n_columns\<close>.
\<close>

datatype raised =
    X_type_error string
  | X_ndim_error "nat list"
  | Unpack_error nat
  | Min_columns_error int nat
  | Univariate_error nat
  | Min_instances_error nat int
  | Not_nested_error
  | Conversion_undefined
  | Y_type_error string
  | Inconsistent_length_error "nat list"
  | Not_a_collection_error
  | Tuple_index_error

datatype pyexc = ValueError | IndexError | TypeError

text \<open>
  The class of the exception raised at each place. The conversion of a frame that is
  outside the converter's contract has no class that the sources fix.
\<close>

fun exc_class :: "raised \<Rightarrow> pyexc option" where
  "exc_class (X_type_error t) = Some ValueError"
| "exc_class (X_ndim_error s) = Some ValueError"
| "exc_class (Unpack_error k) = Some ValueError"
| "exc_class (Min_columns_error m c) = Some ValueError"
| "exc_class (Univariate_error c) = Some ValueError"
| "exc_class (Min_instances_error n m) = Some ValueError"
| "exc_class Not_nested_error = Some ValueError"
| "exc_class Conversion_undefined = None"
| "exc_class (Y_type_error t) = Some ValueError"
| "exc_class (Inconsistent_length_error ls) = Some ValueError"
| "exc_class Not_a_collection_error = Some TypeError"
| "exc_class Tuple_index_error = Some IndexError"

fun exc_message :: "raised \<Rightarrow> string" where
  "exc_message (X_type_error t) =
     ''X must be a pd.DataFrame or a np.array, but found: '' @ t"
| "exc_message (X_ndim_error s) =
     ''If passed as a np.array, X must be a 3-dimensional array, but found shape: ''
       @ show_tuple s"
| "exc_message (Unpack_error k) =
     ''not enough values to unpack (expected 2, got '' @ show_nat k @ '')''"
| "exc_message (Min_columns_error m c) =
     ''X must contain at least: '' @ show_int m @ '' columns,but found only: ''
       @ show_nat c @ ''.''"
| "exc_message (Univariate_error c) =
     ''This method requires X to be univariate with X.shape[1]== 1, but found: X.shape[1] == ''
       @ show_nat c @ ''.''"
| "exc_message (Min_instances_error n m) =
     ''Found array with: '' @ show_nat n @ '' instance(s) but a minimum of: ''
       @ show_int m @ '' is required.''"
| "exc_message Not_nested_error =
     ''If passed as a pd.DataFrame, X must be a nested pd.DataFrame, with pd.Series or np.arrays inside cells.''"
| "exc_message Conversion_undefined = []"
| "exc_message (Y_type_error t) =
     ''y must be either a pd.Series or a np.ndarray, but found type: '' @ t"
| "exc_message (Inconsistent_length_error ls) =
     ''Found input variables with inconsistent numbers of samples: '' @ show_list ls"
| "exc_message Not_a_collection_error = ''Singleton array cannot be considered a valid collection.''"
| "exc_message Tuple_index_error = ''tuple index out of range''"

text \<open>
  The error taxonomy of the specification (section 7), as a second reading of the same
  raise sites: the kind of defect each message reports.
\<close>

datatype spec_error =
  InvalidTypeError | InvalidShapeError | InvalidStructureError | InconsistentLengthError

fun spec_category :: "raised \<Rightarrow> spec_error option" where
  "spec_category (X_type_error t) = Some InvalidTypeError"
| "spec_category (Y_type_error t) = Some InvalidTypeError"
| "spec_category (X_ndim_error s) = Some InvalidShapeError"
| "spec_category (Min_columns_error m c) = Some InvalidShapeError"
| "spec_category (Univariate_error c) = Some InvalidShapeError"
| "spec_category (Min_instances_error n m) = Some InvalidShapeError"
| "spec_category Not_nested_error = Some InvalidStructureError"
| "spec_category (Inconsistent_length_error ls) = Some InconsistentLengthError"
| "spec_category e = None"

subsection \<open>Reading a shape\<close>

text \<open>\<^verbatim>\<open>t[i]\<close> on a tuple, for a non-negative index.\<close>

definition tuple_index :: "nat list \<Rightarrow> nat \<Rightarrow> raised + nat" where
  "tuple_index t i = (if i < length t then Inr (t ! i) else Inl Tuple_index_error)"

text \<open>\<^verbatim>\<open>a, b = t\<close>: the tuple must hold exactly two values.\<close>

fun unpack2 :: "nat list \<Rightarrow> raised + (nat \<times> nat)" where
  "unpack2 [a, b] = Inr (a, b)"
| "unpack2 t = Inl (Unpack_error (length t))"

subsection \<open>Collaborators outside the module\<close>

text \<open>
  Modelled from the spec: \<^verbatim>\<open>is_nested_dataframe\<close> lives in
  \<^verbatim>\<open>sktime.utils.data_container\<close>, which is not among the sources. The specification
  (section 6) gives its contract: true iff every cell of the tabular structure holds a
  sequence-like value rather than a scalar.
\<close>

fun is_sequence_cell :: "'a cell \<Rightarrow> bool" where
  "is_sequence_cell (Nested vs) = True"
| "is_sequence_cell (Scalar v) = False"

fun is_nested_dataframe :: "'a pyobj \<Rightarrow> bool" where
  "is_nested_dataframe (DataFrame c rows) = list_all (list_all is_sequence_cell) rows"
| "is_nested_dataframe x = False"

text \<open>
  Modelled from the spec: \<^verbatim>\<open>nested_to_3d_numpy\<close> lives in
  \<^verbatim>\<open>sktime.utils.data_container\<close>, which is not among the sources. The specification
  (section 6) gives its contract: a nested tabular structure becomes a dense array with
  axes (instance, variable, timepoint); the result is undefined when the cells do not
  agree on their length. \<open>None\<close> stands for a result the contract does not fix: a
  frame whose cells disagree, a frame with no cell to read the length from, or a value
  that is no frame.
\<close>

definition rectangular :: "nat \<Rightarrow> 'a cell list list \<Rightarrow> bool" where
  "rectangular c rows = list_all (\<lambda>r. length r = c) rows"

fun cell_values :: "'a cell \<Rightarrow> 'a list" where
  "cell_values (Nested vs) = vs"
| "cell_values (Scalar v) = [v]"

definition n_timepoints :: "'a cell list list \<Rightarrow> nat option" where
  "n_timepoints rows =
     (case concat rows of
        [] \<Rightarrow> None
      | c # cs \<Rightarrow>
          if list_all (\<lambda>d. is_sequence_cell d \<and> length (cell_values d) = length (cell_values c))
               (c # cs)
          then Some (length (cell_values c)) else None)"

fun nested_to_3d_numpy :: "'a pyobj \<Rightarrow> 'a pyobj option" where
  "nested_to_3d_numpy (DataFrame c rows) =
     (if rectangular c rows then
        (case n_timepoints rows of
           None \<Rightarrow> None
         | Some t \<Rightarrow> Some (NDArray [length rows, c, t] (concat (map cell_values (concat rows)))))
      else None)"
| "nested_to_3d_numpy x = None"

text \<open>
  Modelled from the spec: \<^verbatim>\<open>check_consistent_length\<close> is imported from
  \<^verbatim>\<open>sklearn.utils.validation\<close>, which is not among the sources. The specification
  (section 6) gives its contract: it fails if the leading-dimension lengths of its two
  arguments differ. An argument with a zero-dimensional shape has no leading dimension
  and is refused as no collection.
\<close>

definition num_samples :: "'a pyobj \<Rightarrow> raised + nat" where
  "num_samples x =
     (case asarray_shape x of
        [] \<Rightarrow> Inl Not_a_collection_error
      | n # ns \<Rightarrow> Inr n)"

definition check_consistent_length :: "'a pyobj \<Rightarrow> 'b pyobj \<Rightarrow> raised + unit" where
  "check_consistent_length a b =
     (case num_samples a of
        Inl e \<Rightarrow> Inl e
      | Inr n \<Rightarrow>
          (case num_samples b of
             Inl e \<Rightarrow> Inl e
           | Inr m \<Rightarrow> if n \<noteq> m then Inl (Inconsistent_length_error [n, m]) else Inr ()))"

subsection \<open>The instance-count guard\<close>

text \<open>
  \<^verbatim>\<open>_enforce_min_instances(x, min_instances)\<close>. The leading entry of the shape is read
  before \<open>min_instances\<close> is looked at; the array made by \<^verbatim>\<open>np.asarray\<close> is local.
\<close>

definition p_enforce_min_instances :: "'a pyobj \<Rightarrow> int \<Rightarrow> raised + unit" where
  "p_enforce_min_instances x min_instances =
     (case tuple_index (if hasattr_shape x then shape x else asarray_shape x) 0 of
        Inl e \<Rightarrow> Inl e
      | Inr n_instances \<Rightarrow>
          if min_instances > 0 then
            if int n_instances < min_instances
            then Inl (Min_instances_error n_instances min_instances)
            else Inr ()
          else Inr ())"

subsection \<open>The three checks\<close>

definition check_X :: "'a pyobj \<Rightarrow> bool \<Rightarrow> bool \<Rightarrow> int \<Rightarrow> int \<Rightarrow> raised + 'a pyobj" where
  "check_X X return_numpy enforce_univariate enforce_min_instances enforce_min_columns =
     (if \<not> (is_DataFrame X \<or> is_ndarray X) then Inl (X_type_error (type_repr X))
      else if is_ndarray X \<and> \<not> ndim X = 3 then Inl (X_ndim_error (shape X))
      else
        (case unpack2 (take 2 (shape X)) of
           Inl e \<Rightarrow> Inl e
         | Inr (n_instances, n_columns) \<Rightarrow>
             if int n_columns < enforce_min_columns
             then Inl (Min_columns_error enforce_min_columns n_columns)
             else if enforce_univariate \<and> n_columns > 1
             then (case tuple_index (shape X) 1 of
                     Inl e \<Rightarrow> Inl e
                   | Inr c \<Rightarrow> Inl (Univariate_error c))
             else
               (case (if enforce_min_instances > 0
                      then p_enforce_min_instances X enforce_min_instances
                      else Inr ()) of
                  Inl e \<Rightarrow> Inl e
                | Inr u \<Rightarrow>
                    if is_DataFrame X then
                      if \<not> is_nested_dataframe X then Inl Not_nested_error
                      else if return_numpy then
                        (case nested_to_3d_numpy X of
                           None \<Rightarrow> Inl Conversion_undefined
                         | Some A \<Rightarrow> Inr A)
                      else Inr X
                    else Inr X)))"

definition check_y :: "'a pyobj \<Rightarrow> int \<Rightarrow> bool \<Rightarrow> raised + 'a pyobj" where
  "check_y y enforce_min_instances return_numpy =
     (if \<not> (is_Series y \<or> is_ndarray y) then Inl (Y_type_error (type_repr y))
      else
        (case (if enforce_min_instances > 0
               then p_enforce_min_instances y enforce_min_instances
               else Inr ()) of
           Inl e \<Rightarrow> Inl e
         | Inr u \<Rightarrow> if return_numpy \<and> is_Series y then Inr (to_numpy y) else Inr y))"

text \<open>
  \<^verbatim>\<open>check_X_y\<close> calls \<^verbatim>\<open>check_X\<close> without \<^verbatim>\<open>return_numpy\<close> (so with its default,
  false) and \<^verbatim>\<open>check_y(y)\<close> with both defaults: a minimum of one instance, no conversion.
\<close>

definition check_X_y ::
  "'a pyobj \<Rightarrow> 'b pyobj \<Rightarrow> bool \<Rightarrow> int \<Rightarrow> int \<Rightarrow> raised + ('a pyobj \<times> 'b pyobj)" where
  "check_X_y X y enforce_univariate enforce_min_instances enforce_min_columns =
     (case check_X X False enforce_univariate enforce_min_instances enforce_min_columns of
        Inl e \<Rightarrow> Inl e
      | Inr X' \<Rightarrow>
          (case check_y y 1 False of
             Inl e \<Rightarrow> Inl e
           | Inr y' \<Rightarrow>
               (case check_consistent_length X' y' of
                  Inl e \<Rightarrow> Inl e
                | Inr u \<Rightarrow> Inr (X', y'))))"

subsection \<open>Notions the properties are stated with\<close>

text \<open>
  The instance count of a collection: the leading entry of the shape that
  \<open>p_enforce_min_instances\<close> reads, \<open>Inl\<close> where there is no leading axis.
\<close>

definition leading_axis :: "'a pyobj \<Rightarrow> raised + nat" where
  "leading_axis x = tuple_index (if hasattr_shape x then shape x else asarray_shape x) 0"

text \<open>Every cell of the frame holds a sequence of length \<open>t\<close>.\<close>

definition uniform_cells :: "nat \<Rightarrow> 'a cell list list \<Rightarrow> bool" where
  "uniform_cells t rows =
     list_all (list_all (\<lambda>d. is_sequence_cell d \<and> length (cell_values d) = t)) rows"

section \<open>The checks, case by case\<close>

lemma guard_on_shape:
  "hasattr_shape x \<Longrightarrow> shape x = n # rest \<Longrightarrow>
     p_enforce_min_instances x m =
       (if 0 < m \<and> int n < m then Inl (Min_instances_error n m) else Inr ())"
  by (simp add: p_enforce_min_instances_def tuple_index_def)

lemma guard_leading_axis:
  "leading_axis x = Inr n \<Longrightarrow>
     p_enforce_min_instances x m =
       (if 0 < m \<and> int n < m then Inl (Min_instances_error n m) else Inr ())"
  by (simp add: p_enforce_min_instances_def leading_axis_def)

lemma leading_axis_shape:
  "hasattr_shape x \<Longrightarrow> leading_axis x = Inr n \<Longrightarrow> \<exists>rest. shape x = n # rest"
  by (cases "shape x") (auto simp: leading_axis_def tuple_index_def)

lemma length_3_shape: "length s = 3 \<Longrightarrow> \<exists>n c t. s = [n, c, t]"
  by (auto simp: length_Suc_conv numeral_3_eq_3)

lemma check_X_DataFrame:
  "check_X (DataFrame c rows) rn eu mi mc =
     (if int c < mc then Inl (Min_columns_error mc c)
      else if eu \<and> 1 < c then Inl (Univariate_error c)
      else if 0 < mi \<and> int (length rows) < mi then Inl (Min_instances_error (length rows) mi)
      else if \<not> is_nested_dataframe (DataFrame c rows) then Inl Not_nested_error
      else if rn then (case nested_to_3d_numpy (DataFrame c rows) of
                         None \<Rightarrow> Inl Conversion_undefined | Some A \<Rightarrow> Inr A)
      else Inr (DataFrame c rows))"
  by (simp add: check_X_def tuple_index_def guard_on_shape [of _ "length rows" "[c]"])

lemma check_X_NDArray3:
  "check_X (NDArray [n, c, t] d) rn eu mi mc =
     (if int c < mc then Inl (Min_columns_error mc c)
      else if eu \<and> 1 < c then Inl (Univariate_error c)
      else if 0 < mi \<and> int n < mi then Inl (Min_instances_error n mi)
      else Inr (NDArray [n, c, t] d))"
  by (simp add: check_X_def ndim_def tuple_index_def guard_on_shape [of _ n "[c, t]"])

lemma check_X_NDArray_other:
  "length s \<noteq> 3 \<Longrightarrow> check_X (NDArray s d) rn eu mi mc = Inl (X_ndim_error s)"
  by (simp add: check_X_def ndim_def)

lemma check_X_no_shape:
  "\<not> is_DataFrame X \<Longrightarrow> \<not> is_ndarray X \<Longrightarrow>
     check_X X rn eu mi mc = Inl (X_type_error (type_repr X))"
  by (simp add: check_X_def)

lemma check_y_Series:
  "check_y (Series vs) mi rn =
     (if 0 < mi \<and> int (length vs) < mi then Inl (Min_instances_error (length vs) mi)
      else if rn then Inr (NDArray [length vs] vs) else Inr (Series vs))"
  by (simp add: check_y_def guard_on_shape [of _ "length vs" "[]"])

lemma check_y_NDArray_Cons:
  "check_y (NDArray (n # rest) d) mi rn =
     (if 0 < mi \<and> int n < mi then Inl (Min_instances_error n mi)
      else Inr (NDArray (n # rest) d))"
  by (simp add: check_y_def guard_on_shape [of _ n rest])

lemma check_y_NDArray_Nil:
  "check_y (NDArray [] d) mi rn =
     (if 0 < mi then Inl Tuple_index_error else Inr (NDArray [] d))"
  by (simp add: check_y_def p_enforce_min_instances_def tuple_index_def)

lemma check_y_other:
  "\<not> is_Series y \<Longrightarrow> \<not> is_ndarray y \<Longrightarrow> check_y y mi rn = Inl (Y_type_error (type_repr y))"
  by (simp add: check_y_def)

text \<open>What a successful check tells about its argument.\<close>

lemma passes_check_X:
  assumes "check_X X False eu mi mc = Inr X'"
  shows "X' = X \<and> hasattr_shape X \<and> (\<exists>n c rest. shape X = n # c # rest)"
proof (cases X)
  case (NDArray s d)
  show ?thesis
  proof (cases "length s = 3")
    case True
    then obtain n c t where "s = [n, c, t]" using length_3_shape by blast
    with assms NDArray show ?thesis
      by (auto simp: check_X_NDArray3 split: if_splits)
  next
    case False
    with assms NDArray show ?thesis by (simp add: check_X_NDArray_other)
  qed
next
  case (DataFrame c rows)
  with assms show ?thesis by (auto simp: check_X_DataFrame split: if_splits)
qed (use assms in \<open>simp_all add: check_X_no_shape\<close>)

lemma passes_check_y_default:
  assumes "check_y y 1 False = Inr y'"
  shows "y' = y \<and> hasattr_shape y \<and> (\<exists>m rest. shape y = m # rest \<and> 1 \<le> m)"
proof (cases y)
  case (NDArray s d)
  with assms show ?thesis
    by (cases s) (auto simp: check_y_NDArray_Nil check_y_NDArray_Cons split: if_splits)
next
  case (Series vs)
  with assms show ?thesis by (auto simp: check_y_Series Suc_le_eq split: if_splits)
qed (use assms in \<open>simp_all add: check_y_other\<close>)

lemma num_samples_shape:
  "hasattr_shape x \<Longrightarrow> shape x = n # rest \<Longrightarrow> num_samples x = Inr n"
  by (cases x) (simp_all add: num_samples_def)

text \<open>The converter on a frame inside its contract.\<close>

lemma list_all_concat: "list_all (list_all P) rows \<Longrightarrow> list_all P (concat rows)"
  by (induction rows) simp_all

lemma n_timepoints_uniform:
  assumes "uniform_cells t rows" and "concat rows \<noteq> []"
  shows "n_timepoints rows = Some t"
proof -
  from assms(2) obtain d ds where cells: "concat rows = d # ds" by (cases "concat rows") auto
  have all: "list_all (\<lambda>d. is_sequence_cell d \<and> length (cell_values d) = t) (concat rows)"
    using assms(1) unfolding uniform_cells_def by (rule list_all_concat)
  with cells have "length (cell_values d) = t" by simp
  with all cells show ?thesis
    by (simp add: n_timepoints_def)
qed

lemma concat_nonempty:
  assumes "rectangular c rows" and "rows \<noteq> []" and "0 < c"
  shows "concat rows \<noteq> []"
proof -
  from assms(2) obtain r rs where "rows = r # rs" by (cases rows) auto
  with assms(1,3) show ?thesis by (auto simp: rectangular_def)
qed

text \<open>
  The class of what the checks raise. \<open>check_X\<close> without conversion raises
  \<^verbatim>\<open>ValueError\<close> only; \<open>check_y\<close> does so except on a zero-dimensional array, where
  the read of \<^verbatim>\<open>shape[0]\<close> raises \<^verbatim>\<open>IndexError\<close>.
\<close>

lemma check_X_raises_ValueError:
  assumes "check_X X False eu mi mc = Inl e"
  shows "exc_class e = Some ValueError"
proof (cases X)
  case (NDArray s d)
  show ?thesis
  proof (cases "length s = 3")
    case True
    then obtain n c t where "s = [n, c, t]" using length_3_shape by blast
    with assms NDArray show ?thesis
      by (auto simp: check_X_NDArray3 split: if_splits)
  next
    case False
    with assms NDArray show ?thesis by (auto simp: check_X_NDArray_other)
  qed
next
  case (DataFrame c rows)
  with assms show ?thesis by (auto simp: check_X_DataFrame split: if_splits)
qed (use assms in \<open>auto simp: check_X_no_shape\<close>)

lemma check_y_raises:
  assumes "check_y y mi rn = Inl e"
  shows "exc_class e = Some ValueError \<or> (\<exists>d. y = NDArray [] d \<and> e = Tuple_index_error)"
proof (cases y)
  case (NDArray s d)
  with assms show ?thesis
    by (cases s) (auto simp: check_y_NDArray_Nil check_y_NDArray_Cons split: if_splits)
next
  case (Series vs)
  with assms show ?thesis by (auto simp: check_y_Series split: if_splits)
qed (use assms in \<open>auto simp: check_y_other\<close>)

section \<open>Properties\<close>

subsection \<open>Length consistency of a pair\<close>

text \<open>
  C1. Let \<open>X\<close> pass \<open>check_X\<close> with the flags that \<open>check_X_y\<close> forwards (and no
  conversion, as \<open>check_X_y\<close> calls it), giving \<open>X'\<close>, and let \<open>y\<close> pass \<open>check_y\<close>
  with its defaults, giving \<open>y'\<close>. Then both have a leading axis, of lengths \<open>n\<close> and
  \<open>m\<close>, and \<open>check_X_y\<close> fails with the inconsistent-length error, a \<^verbatim>\<open>ValueError\<close>
  naming both lengths, exactly when \<open>n \<noteq> m\<close>; otherwise it returns the pair \<open>(X', y')\<close>.
\<close>

theorem check_X_y_consistent_length:
  assumes X_ok: "check_X X False enforce_univariate enforce_min_instances enforce_min_columns
                   = Inr X'"
    and y_ok: "check_y y 1 False = Inr y'"
  shows "\<exists>n m. leading_axis X = Inr n \<and> leading_axis y = Inr m
           \<and> check_X_y X y enforce_univariate enforce_min_instances enforce_min_columns =
               (if n \<noteq> m then Inl (Inconsistent_length_error [n, m]) else Inr (X', y'))
           \<and> exc_class (Inconsistent_length_error [n, m]) = Some ValueError
           \<and> spec_category (Inconsistent_length_error [n, m]) = Some InconsistentLengthError"
proof -
  from passes_check_X [OF X_ok] obtain n c rest
    where X: "X' = X" "hasattr_shape X" "shape X = n # c # rest" by blast
  from passes_check_y_default [OF y_ok] obtain m rest'
    where y: "y' = y" "hasattr_shape y" "shape y = m # rest'" by blast
  have "check_consistent_length X y =
          (if n \<noteq> m then Inl (Inconsistent_length_error [n, m]) else Inr ())"
    by (simp add: check_consistent_length_def num_samples_shape [OF X(2,3)]
        num_samples_shape [OF y(2,3)])
  with X_ok y_ok X y show ?thesis
    by (simp add: check_X_y_def leading_axis_def tuple_index_def)
qed

theorem check_X_y_consistent_length_witness:
  "check_X_y (NDArray [2, 1, 3] [1, 2, 3, 4, 5, 6 :: int]) (Series [7, 8 :: int]) False 1 1
     = Inr (NDArray [2, 1, 3] [1, 2, 3, 4, 5, 6], Series [7, 8])
   \<and> check_X_y (NDArray [2, 1, 3] [1, 2, 3, 4, 5, 6 :: int]) (Series [7, 8, 9 :: int]) False 1 1
     = Inl (Inconsistent_length_error [2, 3])"
proof -
  have X: "check_X (NDArray [2, 1, 3] [1, 2, 3, 4, 5, 6 :: int]) False False 1 1
             = Inr (NDArray [2, 1, 3] [1, 2, 3, 4, 5, 6])"
    by (simp add: check_X_NDArray3)
  have y2: "check_y (Series [7, 8 :: int]) 1 False = Inr (Series [7, 8])"
    by (simp add: check_y_Series)
  have y3: "check_y (Series [7, 8, 9 :: int]) 1 False = Inr (Series [7, 8, 9])"
    by (simp add: check_y_Series)
  show ?thesis
    using check_X_y_consistent_length [OF X y2] check_X_y_consistent_length [OF X y3]
    by (simp add: leading_axis_def tuple_index_def)
qed

subsection \<open>The rank of a dense feature array\<close>

text \<open>
  C2. A dense array whose rank is not 3 is refused by \<open>check_X\<close> with the shape error
  of the rank check, whatever the four flags are; the message ends with the shape tuple
  of the array as Python prints it. No entry of the shape has been read at that point:
  the result does not go through \<open>unpack2\<close> or \<open>tuple_index\<close>.
\<close>

theorem check_X_rank_not_3:
  "length s \<noteq> 3 \<Longrightarrow>
     check_X (NDArray s d) return_numpy enforce_univariate enforce_min_instances
         enforce_min_columns = Inl (X_ndim_error s)
     \<and> exc_class (X_ndim_error s) = Some ValueError
     \<and> spec_category (X_ndim_error s) = Some InvalidShapeError
     \<and> exc_message (X_ndim_error s) =
         ''If passed as a np.array, X must be a 3-dimensional array, but found shape: ''
           @ show_tuple s"
  by (simp add: check_X_def ndim_def)

theorem check_X_rank_not_3_witness:
  "length [5, 2 :: nat] \<noteq> 3
   \<and> check_X (NDArray [5, 2] [1, 2, 3, 4, 5, 6, 7, 8, 9, 10 :: int]) True True 0 0
       = Inl (X_ndim_error [5, 2])
   \<and> exc_message (X_ndim_error [5, 2]) =
       ''If passed as a np.array, X must be a 3-dimensional array, but found shape: (5, 2)''"
  using check_X_rank_not_3 [of "[5, 2]" "[1, 2, 3, 4, 5, 6, 7, 8, 9, 10 :: int]" True True 0 0]
  by (simp add: show_nat.simps digit_char_def)

subsection \<open>The minimum number of instances\<close>

text \<open>
  C3. Let \<open>x\<close> be a collection with \<open>n\<close> instances (a leading axis of length \<open>n\<close>).
  For a minimum of zero or less the instance-count check never fails: the guard
  returns, \<open>check_y\<close> accepts every series or array, and no failure of \<open>check_X\<close> is
  the insufficient-instance error. For a minimum of at least one that \<open>n\<close> is below, the
  guard and \<open>check_y\<close> (on a series or array) fail with the insufficient-instance
  error, a shape error whose message carries both \<open>n\<close> and the minimum. \<open>check_X\<close>
  (on a frame or a rank-3 array) fails with a shape error too, and it is the
  insufficient-instance error whenever the column checks, which come first, pass.
\<close>

theorem min_instances_check:
  assumes lead: "leading_axis x = Inr n"
  shows "(min_instances \<le> 0 \<longrightarrow>
            p_enforce_min_instances x min_instances = Inr ()
          \<and> (is_Series x \<or> is_ndarray x \<longrightarrow>
               check_y x min_instances return_numpy =
                 Inr (if return_numpy then to_numpy x else x))
          \<and> (\<forall>k j. check_X x return_numpy enforce_univariate min_instances enforce_min_columns
                 \<noteq> Inl (Min_instances_error k j)))
       \<and> (1 \<le> min_instances \<and> int n < min_instances \<longrightarrow>
            p_enforce_min_instances x min_instances = Inl (Min_instances_error n min_instances)
          \<and> spec_category (Min_instances_error n min_instances) = Some InvalidShapeError
          \<and> exc_message (Min_instances_error n min_instances) =
               ''Found array with: '' @ show_nat n @ '' instance(s) but a minimum of: ''
                 @ show_int min_instances @ '' is required.''
          \<and> (is_Series x \<or> is_ndarray x \<longrightarrow>
               check_y x min_instances return_numpy = Inl (Min_instances_error n min_instances))
          \<and> (is_DataFrame x \<or> (is_ndarray x \<and> ndim x = 3) \<longrightarrow>
               (\<exists>e. check_X x return_numpy enforce_univariate min_instances enforce_min_columns
                       = Inl e
                   \<and> spec_category e = Some InvalidShapeError
                   \<and> ((\<exists>c. tuple_index (shape x) 1 = Inr c \<and> enforce_min_columns \<le> int c
                           \<and> (enforce_univariate \<longrightarrow> c \<le> 1))
                        \<longrightarrow> e = Min_instances_error n min_instances))))"
proof (cases x)
  case (NDArray s d)
  show ?thesis
  proof (cases "length s = 3")
    case True
    then obtain a c t where s: "s = [a, c, t]" using length_3_shape by blast
    with lead NDArray have "a = n" by (simp add: leading_axis_def tuple_index_def)
    with s NDArray lead show ?thesis
      by (simp add: guard_leading_axis check_y_NDArray_Cons check_X_NDArray3 ndim_def
          tuple_index_def)
  next
    case False
    from lead NDArray obtain rest where "s = n # rest"
      using leading_axis_shape [of x n] by auto
    with False NDArray lead show ?thesis
      by (simp add: guard_leading_axis check_y_NDArray_Cons check_X_NDArray_other ndim_def)
  qed
next
  case (DataFrame c rows)
  with lead have "length rows = n" by (simp add: leading_axis_def tuple_index_def)
  with DataFrame lead show ?thesis
    by (simp add: guard_leading_axis check_X_DataFrame tuple_index_def
        del: nested_to_3d_numpy.simps split: option.split)
next
  case (Series vs)
  with lead have "length vs = n" by (simp add: leading_axis_def tuple_index_def)
  with Series lead show ?thesis
    by (simp add: guard_leading_axis check_y_Series check_X_no_shape)
next
  case (PyList vs)
  with lead show ?thesis by (simp add: guard_leading_axis check_X_no_shape)
next
  case (PyOther name)
  with lead show ?thesis by (simp add: guard_leading_axis check_X_no_shape)
qed

theorem min_instances_check_witness:
  "p_enforce_min_instances (DataFrame 1 ([] :: int cell list list)) 0 = Inr ()
   \<and> check_X (DataFrame 1 ([] :: int cell list list)) False False 0 1
       = Inr (DataFrame 1 [])
   \<and> check_X (DataFrame 1 ([] :: int cell list list)) False False 1 1
       = Inl (Min_instances_error 0 1)
   \<and> check_y (Series ([] :: int list)) 0 False = Inr (Series [])
   \<and> check_y (Series ([] :: int list)) 1 False = Inl (Min_instances_error 0 1)
   \<and> exc_message (Min_instances_error 0 1) =
       ''Found array with: 0 instance(s) but a minimum of: 1 is required.''"
proof -
  have d: "leading_axis (DataFrame 1 ([] :: int cell list list)) = Inr 0"
    by (simp add: leading_axis_def tuple_index_def)
  have s: "leading_axis (Series ([] :: int list)) = Inr 0"
    by (simp add: leading_axis_def tuple_index_def)
  show ?thesis
    using min_instances_check [OF d, of 0 False False 1]
      min_instances_check [OF d, of 1 False False 1]
      min_instances_check [OF s, of 0 False False 1]
      min_instances_check [OF s, of 1 False False 1]
    by (simp add: check_X_DataFrame tuple_index_def show_nat.simps show_int_def digit_char_def)
qed

text \<open>
  Without the proviso on the column checks the statement fails for \<open>check_X\<close>. An array
  of shape \<open>(0, 2, 5)\<close> has no instance, yet with \<^verbatim>\<open>enforce_univariate\<close> set it is
  refused for its two variables; an array of shape \<open>(1, 0, 5)\<close> has one instance where
  two are demanded, yet it is refused for its missing columns. Neither message carries
  the instance count found together with the minimum demanded.
\<close>

theorem min_instances_counterexample:
  "leading_axis (NDArray [0, 2, 5] ([] :: int list)) = Inr 0
   \<and> check_X (NDArray [0, 2, 5] ([] :: int list)) False True 1 1 = Inl (Univariate_error 2)
   \<and> check_X (NDArray [0, 2, 5] ([] :: int list)) False True 1 1
       \<noteq> Inl (Min_instances_error 0 1)
   \<and> exc_message (Univariate_error 2) =
       ''This method requires X to be univariate with X.shape[1]== 1, but found: X.shape[1] == 2.''
   \<and> leading_axis (NDArray [1, 0, 5] ([] :: int list)) = Inr 1
   \<and> check_X (NDArray [1, 0, 5] ([] :: int list)) False False 2 1 = Inl (Min_columns_error 1 0)
   \<and> check_X (NDArray [1, 0, 5] ([] :: int list)) False False 2 1
       \<noteq> Inl (Min_instances_error 1 2)
   \<and> exc_message (Min_columns_error 1 0) =
       ''X must contain at least: 1 columns,but found only: 0.''"
  by (simp add: check_X_NDArray3 leading_axis_def tuple_index_def show_nat.simps show_int_def
      digit_char_def)

subsection \<open>What the pair check forwards\<close>

text \<open>
  C4. \<open>check_X_y\<close> hands its three flags to \<open>check_X\<close> only. A failure of \<open>check_X\<close>
  is the failure of the pair check. Once \<open>X\<close> has passed, \<open>y\<close> is judged by \<open>check_y\<close>
  with its defaults, whatever \<^verbatim>\<open>enforce_min_instances\<close> is: a failure of
  \<open>check_y y 1 False\<close> is the failure of the pair check, a returned pair holds \<open>y\<close>
  itself (no dense conversion), and a series or array \<open>y\<close> with no instance is refused
  with the insufficient-instance error (found 0, minimum 1), also when
  \<^verbatim>\<open>enforce_min_instances\<close> is 0.
\<close>

theorem check_X_y_target_defaults:
  "(\<forall>e. check_X X False enforce_univariate enforce_min_instances enforce_min_columns = Inl e
        \<longrightarrow> check_X_y X y enforce_univariate enforce_min_instances enforce_min_columns = Inl e)
   \<and> (\<forall>X'. check_X X False enforce_univariate enforce_min_instances enforce_min_columns = Inr X'
        \<longrightarrow> (\<forall>e. check_y y 1 False = Inl e
               \<longrightarrow> check_X_y X y enforce_univariate enforce_min_instances enforce_min_columns
                     = Inl e)
          \<and> (\<forall>A B. check_X_y X y enforce_univariate enforce_min_instances enforce_min_columns
                     = Inr (A, B)
               \<longrightarrow> A = X' \<and> B = y \<and> check_y y 1 False = Inr y)
          \<and> ((is_Series y \<or> is_ndarray y) \<and> leading_axis y = Inr 0
               \<longrightarrow> check_X_y X y enforce_univariate enforce_min_instances enforce_min_columns
                     = Inl (Min_instances_error 0 1)))"
proof -
  have zero: "check_y y 1 False = Inl (Min_instances_error 0 1)"
    if "is_Series y \<or> is_ndarray y" "leading_axis y = Inr 0"
    using that by (simp add: check_y_def guard_leading_axis)
  have unchanged: "B = y" if "check_y y 1 False = Inr B" for B
    using passes_check_y_default [OF that] by simp
  show ?thesis
    using zero unchanged
    by (auto simp: check_X_y_def split: sum.splits)
qed

theorem check_X_y_target_defaults_witness:
  "check_X_y (DataFrame 1 ([] :: int cell list list)) (Series ([] :: int list)) False 0 1
     = Inl (Min_instances_error 0 1)
   \<and> check_X_y (DataFrame 1 ([] :: int cell list list)) (NDArray [0] ([] :: int list)) False 0 1
     = Inl (Min_instances_error 0 1)
   \<and> check_X_y (PyList [1, 2 :: int]) (Series ([] :: int list)) False 0 1
     = Inl (X_type_error (type_repr (PyList [1, 2 :: int])))"
proof -
  have X: "check_X (DataFrame 1 ([] :: int cell list list)) False False 0 1
             = Inr (DataFrame 1 [])"
    by (simp add: check_X_DataFrame)
  have X2: "check_X (PyList [1, 2 :: int]) False False 0 1
              = Inl (X_type_error (type_repr (PyList [1, 2 :: int])))"
    by (simp add: check_X_no_shape)
  have s: "leading_axis (Series ([] :: int list)) = Inr 0"
    and a: "leading_axis (NDArray [0] ([] :: int list)) = Inr 0"
    by (simp_all add: leading_axis_def tuple_index_def)
  show ?thesis
    using X X2 s a
      check_X_y_target_defaults [of "DataFrame 1 ([] :: int cell list list)" False 0 1
        "Series ([] :: int list)"]
      check_X_y_target_defaults [of "DataFrame 1 ([] :: int cell list list)" False 0 1
        "NDArray [0] ([] :: int list)"]
      check_X_y_target_defaults [of "PyList [1, 2 :: int]" False 0 1
        "Series ([] :: int list)"]
    by simp
qed

text \<open>
  A target with no instance does not always meet the insufficient-instance error: the
  feature input is checked first, and a two-dimensional array in its place ends the
  call with the rank error before \<open>y\<close> is looked at.
\<close>

theorem target_defaults_counterexample:
  "leading_axis (Series ([] :: int list)) = Inr 0
   \<and> check_X_y (NDArray [2, 3] [1, 2, 3, 4, 5, 6 :: int]) (Series ([] :: int list)) False 0 1
       = Inl (X_ndim_error [2, 3])
   \<and> check_X_y (NDArray [2, 3] [1, 2, 3, 4, 5, 6 :: int]) (Series ([] :: int list)) False 0 1
       \<noteq> Inl (Min_instances_error 0 1)"
  by (simp add: check_X_y_def check_X_NDArray_other leading_axis_def tuple_index_def)

subsection \<open>Univariate input\<close>

text \<open>
  C5. Let \<open>X\<close> be a valid feature input: one that \<open>check_X\<close> accepts with its defaults.
  Then \<open>X\<close> has a column count \<open>c\<close>, and \<open>check_X\<close> with \<^verbatim>\<open>enforce_univariate\<close> set
  (the other flags at their defaults) succeeds iff \<open>c = 1\<close>. For \<open>c > 1\<close> it fails with
  the univariate error, a shape error whose message ends with \<open>c\<close>.
\<close>

theorem check_X_univariate:
  assumes valid: "check_X X False False 1 1 = Inr X'"
  shows "\<exists>c. tuple_index (shape X) 1 = Inr c
           \<and> ((\<exists>R. check_X X False True 1 1 = Inr R) \<longleftrightarrow> c = 1)
           \<and> (1 < c \<longrightarrow>
                check_X X False True 1 1 = Inl (Univariate_error c)
              \<and> spec_category (Univariate_error c) = Some InvalidShapeError
              \<and> exc_message (Univariate_error c) =
                  ''This method requires X to be univariate with X.shape[1]== 1, but found: X.shape[1] == ''
                    @ show_nat c @ ''.'')"
proof (cases X)
  case (NDArray s d)
  show ?thesis
  proof (cases "length s = 3")
    case True
    then obtain n c t where "s = [n, c, t]" using length_3_shape by blast
    with valid NDArray show ?thesis
      by (auto simp: check_X_NDArray3 tuple_index_def split: if_splits)
  next
    case False
    with valid NDArray show ?thesis by (simp add: check_X_NDArray_other)
  qed
next
  case (DataFrame c rows)
  with valid show ?thesis
    by (auto simp: check_X_DataFrame tuple_index_def split: if_splits)
qed (use valid in \<open>simp_all add: check_X_no_shape\<close>)

theorem check_X_univariate_witness:
  "check_X (NDArray [5, 1, 10] (replicate 50 (0 :: int))) False True 1 1
     = Inr (NDArray [5, 1, 10] (replicate 50 0))
   \<and> check_X (NDArray [5, 2, 10] (replicate 100 (0 :: int))) False True 1 1
     = Inl (Univariate_error 2)
   \<and> exc_message (Univariate_error 2) =
       ''This method requires X to be univariate with X.shape[1]== 1, but found: X.shape[1] == 2.''"
proof -
  have a: "check_X (NDArray [5, 1, 10] (replicate 50 (0 :: int))) False False 1 1
             = Inr (NDArray [5, 1, 10] (replicate 50 0))"
    and b: "check_X (NDArray [5, 2, 10] (replicate 100 (0 :: int))) False False 1 1
             = Inr (NDArray [5, 2, 10] (replicate 100 0))"
    by (simp_all add: check_X_NDArray3)
  show ?thesis
    using check_X_univariate [OF a] check_X_univariate [OF b] passes_check_X [of _ True 1 1]
    by (auto simp: tuple_index_def show_nat.simps digit_char_def)
qed

subsection \<open>Conversion to a dense array\<close>

text \<open>
  C6. Let \<open>X\<close> be a frame of \<open>n\<close> rows and \<open>c\<close> columns whose every cell holds a
  sequence of length \<open>t\<close>, and let it be valid: \<open>check_X\<close> accepts it with its defaults.
  Then \<open>check_X\<close> with \<^verbatim>\<open>return_numpy\<close> set returns a dense array of shape
  \<open>(n, c, t)\<close>, and \<open>check_X\<close> with \<^verbatim>\<open>return_numpy\<close> set on that array returns the
  same array.
\<close>

theorem check_X_return_numpy_idempotent:
  assumes rect: "rectangular c rows"
    and uni: "uniform_cells t rows"
    and valid: "check_X (DataFrame c rows) False False 1 1 = Inr X'"
  shows "check_X (DataFrame c rows) True False 1 1
           = Inr (NDArray [length rows, c, t] (concat (map cell_values (concat rows))))
       \<and> check_X (NDArray [length rows, c, t] (concat (map cell_values (concat rows))))
             True False 1 1
           = Inr (NDArray [length rows, c, t] (concat (map cell_values (concat rows))))"
proof -
  from valid have c: "0 < c" and n: "rows \<noteq> []"
    by (auto simp: check_X_DataFrame split: if_splits)
  have t: "n_timepoints rows = Some t"
    using uni concat_nonempty [OF rect n c] by (rule n_timepoints_uniform)
  have conv: "nested_to_3d_numpy (DataFrame c rows)
                = Some (NDArray [length rows, c, t] (concat (map cell_values (concat rows))))"
    using rect t by simp
  from valid conv have first: "check_X (DataFrame c rows) True False 1 1
           = Inr (NDArray [length rows, c, t] (concat (map cell_values (concat rows))))"
    by (simp add: check_X_DataFrame del: nested_to_3d_numpy.simps split: if_splits)
  from c n have second:
    "check_X (NDArray [length rows, c, t] (concat (map cell_values (concat rows))))
         True False 1 1
       = Inr (NDArray [length rows, c, t] (concat (map cell_values (concat rows))))"
    by (cases rows) (simp_all add: check_X_NDArray3)
  from first second show ?thesis by simp
qed

theorem check_X_return_numpy_idempotent_witness:
  "check_X (DataFrame 2 [[Nested [1, 2, 3 :: int], Nested [4, 5, 6]],
                         [Nested [7, 8, 9], Nested [10, 11, 12]]]) True False 1 1
     = Inr (NDArray [2, 2, 3] [1, 2, 3, 4, 5, 6, 7, 8, 9, 10, 11, 12])
   \<and> check_X (NDArray [2, 2, 3] [1, 2, 3, 4, 5, 6, 7, 8, 9, 10, 11, 12 :: int]) True False 1 1
     = Inr (NDArray [2, 2, 3] [1, 2, 3, 4, 5, 6, 7, 8, 9, 10, 11, 12])"
proof -
  let ?rows = "[[Nested [1, 2, 3 :: int], Nested [4, 5, 6]],
                [Nested [7, 8, 9], Nested [10, 11, 12]]]"
  have r: "rectangular 2 ?rows" by (simp add: rectangular_def)
  have u: "uniform_cells 3 ?rows" by (simp add: uniform_cells_def)
  have v: "check_X (DataFrame 2 ?rows) False False 1 1 = Inr (DataFrame 2 ?rows)"
    by (simp add: check_X_DataFrame)
  show ?thesis
    using check_X_return_numpy_idempotent [OF r u v] by (simp add: numeral_2_eq_2)
qed

subsection \<open>The structure check of a frame\<close>

text \<open>
  C7. Take a frame of \<open>c\<close> columns. If it passes the minimum-column, univariate and
  minimum-instance checks (the type check it passes as a frame), then \<open>check_X\<close> fails
  with a structure error iff the frame does not satisfy \<open>is_nested_dataframe\<close>; the
  failure is then the not-nested error; the converter is run only when the predicate
  holds and \<^verbatim>\<open>return_numpy\<close> is set, and otherwise the frame itself is returned. If
  the frame fails one of those earlier checks, \<open>check_X\<close> fails with a shape error,
  nested or not: the structure check comes after them.
\<close>

theorem check_X_structure_check:
  "(enforce_min_columns \<le> int c \<and> (enforce_univariate \<longrightarrow> c \<le> 1)
      \<and> (0 < enforce_min_instances \<longrightarrow> enforce_min_instances \<le> int (length rows))
    \<longrightarrow> ((\<exists>e. check_X (DataFrame c rows) return_numpy enforce_univariate
                  enforce_min_instances enforce_min_columns = Inl e
              \<and> spec_category e = Some InvalidStructureError)
            \<longleftrightarrow> \<not> is_nested_dataframe (DataFrame c rows))
       \<and> (\<not> is_nested_dataframe (DataFrame c rows) \<longrightarrow>
            check_X (DataFrame c rows) return_numpy enforce_univariate
                enforce_min_instances enforce_min_columns = Inl Not_nested_error)
       \<and> (is_nested_dataframe (DataFrame c rows) \<and> return_numpy \<longrightarrow>
            check_X (DataFrame c rows) return_numpy enforce_univariate
                enforce_min_instances enforce_min_columns
              = (case nested_to_3d_numpy (DataFrame c rows) of
                   None \<Rightarrow> Inl Conversion_undefined
                 | Some A \<Rightarrow> Inr A))
       \<and> (is_nested_dataframe (DataFrame c rows) \<and> \<not> return_numpy \<longrightarrow>
            check_X (DataFrame c rows) return_numpy enforce_univariate
                enforce_min_instances enforce_min_columns = Inr (DataFrame c rows)))
   \<and> (\<not> (enforce_min_columns \<le> int c \<and> (enforce_univariate \<longrightarrow> c \<le> 1)
          \<and> (0 < enforce_min_instances \<longrightarrow> enforce_min_instances \<le> int (length rows)))
    \<longrightarrow> (\<exists>e. check_X (DataFrame c rows) return_numpy enforce_univariate
                  enforce_min_instances enforce_min_columns = Inl e
              \<and> spec_category e = Some InvalidShapeError))"
  by (auto simp: check_X_DataFrame simp del: nested_to_3d_numpy.simps is_nested_dataframe.simps
      split: option.splits)

theorem check_X_structure_check_witness:
  "check_X (DataFrame 1 [[Scalar (1 :: int)], [Scalar 2]]) True False 1 1 = Inl Not_nested_error
   \<and> check_X (DataFrame 1 [[Nested [1 :: int, 2]], [Nested [3, 4]]]) False False 1 1
       = Inr (DataFrame 1 [[Nested [1, 2]], [Nested [3, 4]]])
   \<and> check_X (DataFrame 1 [[Nested [1 :: int, 2]], [Nested [3, 4]]]) True False 1 1
       = Inr (NDArray [2, 1, 2] [1, 2, 3, 4])
   \<and> (\<exists>e. check_X (DataFrame 2 [[Scalar (1 :: int), Scalar 2]]) True True 1 1 = Inl e
          \<and> spec_category e = Some InvalidShapeError)"
  using check_X_structure_check [of 1 1 False 1 "[[Scalar (1 :: int)], [Scalar 2]]" True]
    check_X_structure_check [of 1 1 False 1 "[[Nested [1 :: int, 2]], [Nested [3, 4]]]" False]
    check_X_structure_check [of 1 1 False 1 "[[Nested [1 :: int, 2]], [Nested [3, 4]]]" True]
    check_X_structure_check [of 1 2 True 1 "[[Scalar (1 :: int), Scalar 2]]" True]
  by (simp add: n_timepoints_def rectangular_def)

subsection \<open>The target as a series or as an array\<close>

text \<open>
  C8. A series of the values \<open>vs\<close> and the one-dimensional array of the same values get
  the same answer from \<open>check_y\<close> with \<^verbatim>\<open>return_numpy\<close> set, whatever the minimum is.
  When the length of \<open>vs\<close> reaches the minimum, that answer is the one-dimensional
  array of \<open>vs\<close>: the series converted, the array unchanged.
\<close>

theorem check_y_series_array_agree:
  "check_y (Series vs) enforce_min_instances True
     = check_y (NDArray [length vs] vs) enforce_min_instances True
   \<and> (enforce_min_instances \<le> int (length vs) \<longrightarrow>
        check_y (Series vs) enforce_min_instances True = Inr (NDArray [length vs] vs)
      \<and> check_y (NDArray [length vs] vs) enforce_min_instances True
          = Inr (NDArray [length vs] vs))"
  by (simp add: check_y_Series check_y_NDArray_Cons)

theorem check_y_series_array_agree_witness:
  "check_y (Series [3, 1, 4 :: int]) 1 True = Inr (NDArray [3] [3, 1, 4])
   \<and> check_y (NDArray [3] [3, 1, 4 :: int]) 1 True = Inr (NDArray [3] [3, 1, 4])"
  using check_y_series_array_agree [of "[3, 1, 4 :: int]" 1]
  by (simp add: numeral_3_eq_3)

text \<open>
  For the empty sequence and the default minimum of one instance there is no array to
  agree on: both forms are refused.
\<close>

theorem check_y_empty_counterexample:
  "check_y (Series ([] :: int list)) 1 True = Inl (Min_instances_error 0 1)
   \<and> check_y (NDArray [0] ([] :: int list)) 1 True = Inl (Min_instances_error 0 1)
   \<and> check_y (Series ([] :: int list)) 1 True \<noteq> Inr (NDArray [0] [])"
  by (simp add: check_y_Series check_y_NDArray_Cons)

subsection \<open>The rank of a target array\<close>

text \<open>
  C9. \<open>check_y\<close> does not look at the rank of an array: an array of any shape whose
  leading axis has at least \<^verbatim>\<open>enforce_min_instances\<close> entries is accepted and returned
  as it is, with or without \<^verbatim>\<open>return_numpy\<close>.
\<close>

theorem check_y_any_rank:
  "leading_axis (NDArray s d) = Inr n \<Longrightarrow> enforce_min_instances \<le> int n \<Longrightarrow>
     check_y (NDArray s d) enforce_min_instances return_numpy = Inr (NDArray s d)"
  by (cases s) (auto simp: leading_axis_def tuple_index_def check_y_NDArray_Cons)

theorem check_y_any_rank_witness:
  "check_y (NDArray [3, 2] [1, 2, 3, 4, 5, 6 :: int]) 1 False
     = Inr (NDArray [3, 2] [1, 2, 3, 4, 5, 6])
   \<and> check_y (NDArray [2, 1, 2, 1] [1, 2, 3, 4 :: int]) 2 True
     = Inr (NDArray [2, 1, 2, 1] [1, 2, 3, 4])"
proof -
  have a: "leading_axis (NDArray [3, 2] [1, 2, 3, 4, 5, 6 :: int]) = Inr 3"
    and b: "leading_axis (NDArray [2, 1, 2, 1] [1, 2, 3, 4 :: int]) = Inr 2"
    by (simp_all add: leading_axis_def tuple_index_def)
  show ?thesis
    using check_y_any_rank [OF a, of 1 False] check_y_any_rank [OF b, of 2 True]
    by simp
qed

subsection \<open>The class of the exceptions\<close>

text \<open>
  C10. Not every failure is a \<^verbatim>\<open>ValueError\<close>. A zero-dimensional array as target has
  an empty shape tuple; \<open>check_y\<close> with its defaults lets it through the type check, the
  guard reads \<^verbatim>\<open>shape[0]\<close>, and the call ends with Python's \<^verbatim>\<open>IndexError\<close>. The
  same happens in the guard called alone and in \<open>check_X_y\<close> after a valid \<open>X\<close>.
\<close>

theorem check_y_zero_dim_IndexError:
  "check_y (NDArray [] [5 :: int]) 1 False = Inl Tuple_index_error
   \<and> exc_class Tuple_index_error = Some IndexError
   \<and> p_enforce_min_instances (NDArray [] [5 :: int]) 1 = Inl Tuple_index_error
   \<and> check_X_y (NDArray [1, 1, 1] [0 :: int]) (NDArray [] [5 :: int]) False 1 1
       = Inl Tuple_index_error"
  by (simp add: check_y_NDArray_Nil p_enforce_min_instances_def tuple_index_def
      check_X_y_def check_X_NDArray3)

end
